theory Spec2Isabelle
  imports Complex_Main
begin

section \<open>Data model\<close>

text \<open>
  The strategy (\<^verbatim>\<open>your_strategy.py\<close>) and the backtest driver
  (\<^verbatim>\<open>backtest_runner.py\<close>) compute on Python floats. They are modelled as
  \<^typ>\<open>real\<close>: rounding and NaN are outside the model, and so are infinities
  except at the one place where an infinite float raises, the conversion
  \<^verbatim>\<open>int(...)\<close> of the level quotient. Every \<^verbatim>\<open>raise\<close> of the source is a
  value of \<open>py_error\<close>; a float division by zero raises
  \<^verbatim>\<open>ZeroDivisionError\<close> in Python and does so here.
\<close>

datatype py_error = ZeroDivisionError | StatisticsError | IndexError | OverflowError

type_synonym timestamp = int

text \<open>
  Modelled from the spec: the classes \<^verbatim>\<open>Signal\<close>, \<^verbatim>\<open>Portfolio\<close> and
  \<^verbatim>\<open>MarketSnapshot\<close> are imported from the base bot template, which is not part
  of the sources. A signal has an action (a Python string: \<^verbatim>\<open>"buy"\<close>,
  \<^verbatim>\<open>"sell"\<close>, \<^verbatim>\<open>"hold"\<close>), a size (0 when not given) and an optional reason;
  a portfolio has a symbol, cash and a quantity; a market snapshot has a symbol, the
  closing prices oldest first, the current price and a timestamp.
\<close>

record signal =
  action :: string
  size :: real
  reason :: "string option"

record portfolio =
  pf_symbol :: string
  cash :: real
  quantity :: real

record market_snapshot =
  ms_symbol :: string
  prices :: "real list"
  current_price :: real
  ms_timestamp :: timestamp

text \<open>
  Modelled from the spec: \<^verbatim>\<open>Portfolio.value\<close>, defined in the base bot template
  outside the sources; the specification gives \<open>value(price) = cash + quantity * price\<close>.
\<close>

definition portfolio_value :: "portfolio \<Rightarrow> real \<Rightarrow> real" where
  "portfolio_value pf price = cash pf + quantity pf * price"

text \<open>An entry of \<^verbatim>\<open>active_positions\<close>: the dict \<^verbatim>\<open>{'price': .., 'size': ..}\<close>.\<close>

record position =
  pos_price :: real
  pos_size :: real

text \<open>
  The configuration dict read by \<^verbatim>\<open>__init__\<close>: each key may be absent, and
  \<^verbatim>\<open>config.get(key, default)\<close> supplies the default.
\<close>

record config =
  cfg_ma_period :: "int option"
  cfg_grid_step_pct :: "real option"
  cfg_max_grid_levels :: "int option"
  cfg_position_size_pct :: "real option"
  cfg_stop_loss_pct :: "real option"
  cfg_take_profit_above_sma_pct :: "real option"
  cfg_trailing_stop_activation_pct :: "real option"
  cfg_trailing_stop_callback_pct :: "real option"

text \<open>The attributes of a \<^verbatim>\<open>SwingReversionStrategy\<close> object: parameters, then state.\<close>

record strategy =
  ma_period :: int
  grid_step_pct :: real
  max_grid_levels :: int
  position_size_pct :: real
  stop_loss_pct :: real
  take_profit_above_sma_pct :: real
  trailing_stop_activation_pct :: real
  trailing_stop_callback_pct :: real
  active_positions :: "position list"
  last_signal_time :: "timestamp option"
  trailing_high :: real

definition dict_get :: "'a option \<Rightarrow> 'a \<Rightarrow> 'a" where
  "dict_get v d = (case v of None \<Rightarrow> d | Some x \<Rightarrow> x)"

definition init :: "config \<Rightarrow> strategy" where
  "init cfg =
     \<lparr> ma_period = dict_get (cfg_ma_period cfg) 24,
       grid_step_pct = dict_get (cfg_grid_step_pct cfg) (1 / 100),
       max_grid_levels = dict_get (cfg_max_grid_levels cfg) 2,
       position_size_pct = dict_get (cfg_position_size_pct cfg) (275 / 1000),
       stop_loss_pct = dict_get (cfg_stop_loss_pct cfg) (15 / 100),
       take_profit_above_sma_pct = dict_get (cfg_take_profit_above_sma_pct cfg) (50 / 100),
       trailing_stop_activation_pct = dict_get (cfg_trailing_stop_activation_pct cfg) (25 / 1000),
       trailing_stop_callback_pct = dict_get (cfg_trailing_stop_callback_pct cfg) (35 / 1000),
       active_positions = [],
       last_signal_time = None,
       trailing_high = 0 \<rparr>"

definition empty_config :: config where
  "empty_config =
     \<lparr> cfg_ma_period = None, cfg_grid_step_pct = None, cfg_max_grid_levels = None,
       cfg_position_size_pct = None, cfg_stop_loss_pct = None,
       cfg_take_profit_above_sma_pct = None, cfg_trailing_stop_activation_pct = None,
       cfg_trailing_stop_callback_pct = None \<rparr>"

section \<open>Python primitives used by the strategy\<close>

text \<open>\<^verbatim>\<open>xs[i:]\<close>: a negative start counts from the end and is clamped at 0.\<close>

definition py_slice_from :: "int \<Rightarrow> 'a list \<Rightarrow> 'a list" where
  "py_slice_from i xs =
     (let n = int (length xs);
          start = (if i < 0 then max (n + i) 0 else min i n)
      in drop (nat start) xs)"

text \<open>\<^verbatim>\<open>statistics.mean\<close> raises \<^verbatim>\<open>StatisticsError\<close> on an empty sequence.\<close>

definition statistics_mean :: "real list \<Rightarrow> py_error + real" where
  "statistics_mean xs =
     (if xs = [] then Inl StatisticsError else Inr (sum_list xs / real (length xs)))"

text \<open>
  A quotient of doubles is infinite when its magnitude reaches \<open>2^1024 - 2^970\<close>,
  where rounding to nearest leaves the finite range; the smallest positive normal
  double is \<open>2^-1022\<close>.
\<close>

definition float_overflow :: real where
  "float_overflow = 2 ^ 1024 - 2 ^ 970"


text \<open>
  \<^verbatim>\<open>int(x)\<close> on a float truncates towards zero and raises
  \<^verbatim>\<open>OverflowError\<close> on an infinite one. The model keeps the exact quotient and
  raises where the float would have been infinite.
\<close>

definition py_int :: "real \<Rightarrow> py_error + int" where
  "py_int x =
     (if float_overflow \<le> \<bar>x\<bar> then Inl OverflowError
      else Inr (if 0 \<le> x then \<lfloor>x\<rfloor> else \<lceil>x\<rceil>))"

definition py_div :: "real \<Rightarrow> real \<Rightarrow> py_error + real" where
  "py_div a b = (if b = 0 then Inl ZeroDivisionError else Inr (a / b))"

text \<open>The decimal text of an integer, as an f-string prints it.\<close>

definition digit_char :: "nat \<Rightarrow> char" where
  "digit_char d = ''0123456789'' ! d"

fun str_nat :: "nat \<Rightarrow> string" where
  "str_nat n =
     (if n < 10 then [digit_char n]
      else str_nat (n div 10) @ [digit_char (n mod 10)])"

definition str_int :: "int \<Rightarrow> string" where
  "str_int i = (if i < 0 then CHR ''-'' # str_nat (nat (- i)) else str_nat (nat i))"

section \<open>The strategy engine\<close>

definition hold_signal :: signal where
  "hold_signal = \<lparr> action = ''hold'', size = 0, reason = None \<rparr>"

text \<open>Lines 53-55 of \<^verbatim>\<open>generate_signal\<close>: the anchor and the deviation from it.\<close>

definition anchor :: "strategy \<Rightarrow> market_snapshot \<Rightarrow> py_error + (real \<times> real)" where
  "anchor self market =
     (case statistics_mean (py_slice_from (- ma_period self) (prices market)) of
        Inl e \<Rightarrow> Inl e
      | Inr sma \<Rightarrow>
          (case py_div (current_price market - sma) sma of
             Inl e \<Rightarrow> Inl e
           | Inr deviation \<Rightarrow> Inr (sma, deviation)))"

text \<open>Lines 58-62: the trailing high follows the price while a position is held.\<close>

definition update_trailing_high :: "strategy \<Rightarrow> real \<Rightarrow> portfolio \<Rightarrow> strategy" where
  "update_trailing_high self price pf =
     (if quantity pf > 0 then
        (if price > trailing_high self then self\<lparr>trailing_high := price\<rparr> else self)
      else self\<lparr>trailing_high := 0\<rparr>)"

definition total_size :: "position list \<Rightarrow> real" where
  "total_size ps = sum_list (map pos_size ps)"

text \<open>Lines 65-76: whether the trailing stop returns its sell.\<close>

definition trailing_stop_hit :: "strategy \<Rightarrow> real \<Rightarrow> portfolio \<Rightarrow> bool" where
  "trailing_stop_hit self price pf =
     (if quantity pf > 0 then
        (if total_size (active_positions self) > 0 then
           (let avg_entry =
                  sum_list (map (\<lambda>p. pos_price p * pos_size p) (active_positions self))
                    / total_size (active_positions self)
            in (if trailing_high self > avg_entry * (1 + trailing_stop_activation_pct self)
                then price < trailing_high self * (1 - trailing_stop_callback_pct self)
                else False))
         else False)
      else False)"

text \<open>
  Lines 107-110: the loop over the ledger. It returns at the first position near the
  price; a position with entry price 0 met before that raises.
\<close>

fun level_occupied :: "real \<Rightarrow> real \<Rightarrow> position list \<Rightarrow> py_error + bool" where
  "level_occupied step price [] = Inr False"
| "level_occupied step price (pos # rest) =
     (case py_div \<bar>pos_price pos - price\<bar> (pos_price pos) of
        Inl e \<Rightarrow> Inl e
      | Inr price_diff_pct \<Rightarrow>
          (if price_diff_pct < step * (1 / 2) then Inr True
           else level_occupied step price rest))"

text \<open>Lines 87-129: the grid entry, reached with a negative deviation.\<close>

definition grid_entry :: "strategy \<Rightarrow> real \<Rightarrow> real \<Rightarrow> portfolio \<Rightarrow> py_error + signal" where
  "grid_entry self price deviation pf =
     (case py_div \<bar>deviation\<bar> (grid_step_pct self) of
        Inl e \<Rightarrow> Inl e
      | Inr q \<Rightarrow>
          (case py_int q of
             Inl e \<Rightarrow> Inl e
           | Inr level_idx \<Rightarrow>
               if level_idx < 1 then Inr hold_signal
               else
                 (let level_idx =
                        (if level_idx > max_grid_levels self then max_grid_levels self
                         else level_idx)
                  in case level_occupied (grid_step_pct self) price (active_positions self) of
                       Inl e \<Rightarrow> Inl e
                     | Inr True \<Rightarrow>
                         Inr \<lparr> action = ''hold'', size = 0,
                               reason = Some ''Position already exists at this level'' \<rparr>
                     | Inr False \<Rightarrow>
                         (let total_equity = cash pf + quantity pf * price in
                          case py_div (quantity pf * price) total_equity of
                            Inl e \<Rightarrow> Inl e
                          | Inr current_exposure \<Rightarrow>
                              (if current_exposure \<ge> 55 / 100 then
                                 Inr \<lparr> action = ''hold'', size = 0,
                                       reason = Some ''Max exposure reached'' \<rparr>
                               else
                                 (let buy_amount_usd = total_equity * position_size_pct self;
                                      buy_amount_usd =
                                        (if cash pf < buy_amount_usd then cash pf
                                         else buy_amount_usd)
                                  in if buy_amount_usd < 10 then
                                       Inr \<lparr> action = ''hold'', size = 0,
                                             reason = Some ''Insufficient cash'' \<rparr>
                                     else
                                       (case py_div buy_amount_usd price of
                                          Inl e \<Rightarrow> Inl e
                                        | Inr sz \<Rightarrow>
                                            Inr \<lparr> action = ''buy'', size = sz,
                                                  reason =
                                                    Some (''Grid Buy Level ''
                                                            @ str_int level_idx) \<rparr>)))))))"

text \<open>
  \<^verbatim>\<open>generate_signal\<close>. The result pairs what the call returns or raises with the
  object after the call: the trailing high is assigned before the later divisions, so an
  exception raised by them leaves it updated.
\<close>

definition generate_signal ::
  "strategy \<Rightarrow> market_snapshot \<Rightarrow> portfolio \<Rightarrow> (py_error + signal) \<times> strategy" where
  "generate_signal self market pf =
     (if int (length (prices market)) < ma_period self then (Inr hold_signal, self)
      else
        (case anchor self market of
           Inl e \<Rightarrow> (Inl e, self)
         | Inr (sma, deviation) \<Rightarrow>
             (let price = current_price market;
                  self' = update_trailing_high self price pf
              in if trailing_stop_hit self' price pf then
                   (Inr \<lparr> action = ''sell'', size = quantity pf,
                          reason = Some ''Trailing Stop Hit'' \<rparr>, self')
                 else if deviation > take_profit_above_sma_pct self' \<and> quantity pf > 0 then
                   (Inr \<lparr> action = ''sell'', size = quantity pf,
                          reason = Some ''Mean Reversion: Target Hit'' \<rparr>, self')
                 else if deviation < 0 then (grid_entry self' price deviation pf, self')
                 else (Inr hold_signal, self'))))"

text \<open>\<^verbatim>\<open>on_trade\<close>: a buy appends a lot, a sell clears the ledger.\<close>

definition on_trade :: "strategy \<Rightarrow> signal \<Rightarrow> real \<Rightarrow> real \<Rightarrow> timestamp \<Rightarrow> strategy" where
  "on_trade self sig execution_price execution_size ts =
     (if action sig = ''buy'' then
        self\<lparr>active_positions :=
               active_positions self @ [\<lparr> pos_price = execution_price, pos_size = execution_size \<rparr>]\<rparr>
      else if action sig = ''sell'' then self\<lparr>active_positions := []\<rparr>
      else self)"

text \<open>
  A sequence of calls on one strategy object, as a hosting runtime makes them. Each
  \<^verbatim>\<open>generate_signal\<close> call contributes what it returned or raised; the object is
  threaded through.
\<close>

datatype call =
  Generate_signal market_snapshot portfolio
| On_trade signal real real timestamp

fun run_calls :: "strategy \<Rightarrow> call list \<Rightarrow> (py_error + signal) list \<times> strategy" where
  "run_calls self [] = ([], self)"
| "run_calls self (Generate_signal market pf # cs) =
     (let (r, self') = generate_signal self market pf;
          (rs, self'') = run_calls self' cs
      in (r # rs, self''))"
| "run_calls self (On_trade sig price sz ts # cs) =
     run_calls (on_trade self sig price sz ts) cs"

section \<open>Strategy objects and the exported state\<close>

text \<open>
  The list held in \<^verbatim>\<open>active_positions\<close> is a Python object with identity:
  \<^verbatim>\<open>get_state\<close> hands it out, \<^verbatim>\<open>set_state\<close> stores the object it is given,
  \<^verbatim>\<open>append\<close> changes it in place and \<^verbatim>\<open>self.active_positions = []\<close> binds a
  new one. Where two strategy objects can hold the same list, the lists live in a store
  and an object holds a reference. The entries of a list are dicts that are never
  changed after they are built, and the other attributes are numbers; they are values.
\<close>

type_synonym ref = nat

record store =
  list_at :: "ref \<Rightarrow> position list"
  next_ref :: ref

definition empty_store :: store where
  "empty_store = \<lparr> list_at = (\<lambda>r. []), next_ref = 0 \<rparr>"

text \<open>A list display such as \<^verbatim>\<open>[]\<close> builds a new list object.\<close>

definition new_list :: "position list \<Rightarrow> store \<Rightarrow> ref \<times> store" where
  "new_list xs st =
     (next_ref st,
      st\<lparr>list_at := (list_at st)(next_ref st := xs), next_ref := Suc (next_ref st)\<rparr>)"

text \<open>A \<^verbatim>\<open>SwingReversionStrategy\<close> object whose list attribute is a reference.\<close>

record strategy_obj =
  o_ma_period :: int
  o_grid_step_pct :: real
  o_max_grid_levels :: int
  o_position_size_pct :: real
  o_stop_loss_pct :: real
  o_take_profit_above_sma_pct :: real
  o_trailing_stop_activation_pct :: real
  o_trailing_stop_callback_pct :: real
  o_active_positions :: ref
  o_last_signal_time :: "timestamp option"
  o_trailing_high :: real

text \<open>The attribute values of an object, its list read through the store.\<close>

definition attributes :: "store \<Rightarrow> strategy_obj \<Rightarrow> strategy" where
  "attributes st self =
     \<lparr> ma_period = o_ma_period self,
       grid_step_pct = o_grid_step_pct self,
       max_grid_levels = o_max_grid_levels self,
       position_size_pct = o_position_size_pct self,
       stop_loss_pct = o_stop_loss_pct self,
       take_profit_above_sma_pct = o_take_profit_above_sma_pct self,
       trailing_stop_activation_pct = o_trailing_stop_activation_pct self,
       trailing_stop_callback_pct = o_trailing_stop_callback_pct self,
       active_positions = list_at st (o_active_positions self),
       last_signal_time = o_last_signal_time self,
       trailing_high = o_trailing_high self \<rparr>"

text \<open>\<^verbatim>\<open>__init__\<close>: the parameters and state of \<open>init\<close>, with a new list.\<close>

definition init_obj :: "config \<Rightarrow> store \<Rightarrow> strategy_obj \<times> store" where
  "init_obj cfg st =
     (let (r, st') = new_list [] st;
          s = init cfg
      in (\<lparr> o_ma_period = ma_period s,
             o_grid_step_pct = grid_step_pct s,
             o_max_grid_levels = max_grid_levels s,
             o_position_size_pct = position_size_pct s,
             o_stop_loss_pct = stop_loss_pct s,
             o_take_profit_above_sma_pct = take_profit_above_sma_pct s,
             o_trailing_stop_activation_pct = trailing_stop_activation_pct s,
             o_trailing_stop_callback_pct = trailing_stop_callback_pct s,
             o_active_positions = r,
             o_last_signal_time = last_signal_time s,
             o_trailing_high = trailing_high s \<rparr>, st'))"

text \<open>
  \<^verbatim>\<open>generate_signal\<close> on an object: it reads the list and assigns only
  \<^verbatim>\<open>trailing_high\<close>; the store is not changed.
\<close>

definition generate_signal_obj ::
  "store \<Rightarrow> strategy_obj \<Rightarrow> market_snapshot \<Rightarrow> portfolio \<Rightarrow> (py_error + signal) \<times> strategy_obj" where
  "generate_signal_obj st self market pf =
     (let (r, s') = generate_signal (attributes st self) market pf
      in (r, self\<lparr>o_trailing_high := trailing_high s'\<rparr>))"

text \<open>
  \<^verbatim>\<open>on_trade\<close> on an object: a buy appends to the list object in place (line 135),
  a sell binds the attribute to a new empty list (line 138).
\<close>

definition on_trade_obj ::
  "store \<Rightarrow> strategy_obj \<Rightarrow> signal \<Rightarrow> real \<Rightarrow> real \<Rightarrow> timestamp \<Rightarrow> strategy_obj \<times> store" where
  "on_trade_obj st self sig execution_price execution_size ts =
     (if action sig = ''buy'' then
        (self,
         st\<lparr>list_at := (list_at st)
               (o_active_positions self :=
                  list_at st (o_active_positions self)
                    @ [\<lparr> pos_price = execution_price, pos_size = execution_size \<rparr>])\<rparr>)
      else if action sig = ''sell'' then
        (let (r, st') = new_list [] st in (self\<lparr>o_active_positions := r\<rparr>, st'))
      else (self, st))"

text \<open>
  \<^verbatim>\<open>get_state\<close> and \<^verbatim>\<open>set_state\<close>. The exported dict has the keys
  \<^verbatim>\<open>active_positions\<close> and \<^verbatim>\<open>trailing_high\<close>; the first holds the list object
  itself, not a copy (line 143). \<^verbatim>\<open>set_state\<close> reads each key with a default and
  stores the list object it finds (line 149).
\<close>

record state_dict =
  sd_active_positions :: "ref option"
  sd_trailing_high :: "real option"

definition get_state :: "strategy_obj \<Rightarrow> state_dict" where
  "get_state self =
     \<lparr> sd_active_positions = Some (o_active_positions self),
       sd_trailing_high = Some (o_trailing_high self) \<rparr>"

definition set_state :: "store \<Rightarrow> strategy_obj \<Rightarrow> state_dict \<Rightarrow> strategy_obj \<times> store" where
  "set_state st self state =
     (let (r, st') = (case sd_active_positions state of
                        None \<Rightarrow> new_list [] st
                      | Some r \<Rightarrow> (r, st))
      in (self\<lparr>o_active_positions := r,
               o_trailing_high := dict_get (sd_trailing_high state) 0\<rparr>, st'))"

text \<open>
  Modelled from the spec: the persistence layer of the hosting runtime is not part of
  the sources. The specification asks that the state be "serializable to and restorable
  from a plain mapping"; a dict that was written to storage and read back holds a new
  list object with the same entries.
\<close>

definition stored_copy :: "store \<Rightarrow> state_dict \<Rightarrow> state_dict \<times> store" where
  "stored_copy st state =
     (case sd_active_positions state of
        None \<Rightarrow> (state, st)
      | Some r \<Rightarrow>
          (let (r', st') = new_list (list_at st r) st
           in (state\<lparr>sd_active_positions := Some r'\<rparr>, st')))"

text \<open>A sequence of calls on one object, threading the store.\<close>

fun run_calls_obj ::
  "store \<Rightarrow> strategy_obj \<Rightarrow> call list \<Rightarrow> (py_error + signal) list \<times> strategy_obj \<times> store" where
  "run_calls_obj st self [] = ([], self, st)"
| "run_calls_obj st self (Generate_signal market pf # cs) =
     (let (r, self') = generate_signal_obj st self market pf;
          (rs, self'', st') = run_calls_obj st self' cs
      in (r # rs, self'', st'))"
| "run_calls_obj st self (On_trade sig price sz ts # cs) =
     (let (self', st') = on_trade_obj st self sig price sz ts
      in run_calls_obj st' self' cs)"

text \<open>
  A fresh strategy of the same configuration, initialised by
  \<^verbatim>\<open>set_state(get_state())\<close> from the object \<open>a\<close>: with the dict passed on as it
  is, or after it went through storage.
\<close>

definition restore :: "bool \<Rightarrow> config \<Rightarrow> strategy_obj \<Rightarrow> store \<Rightarrow> strategy_obj \<times> store" where
  "restore through_storage cfg a st =
     (let (b0, st') = init_obj cfg st;
          (state, st'') = (if through_storage then stored_copy st' (get_state a)
                           else (get_state a, st'))
      in set_state st'' b0 state)"

text \<open>
  The round-trip experiment: an original strategy is built and runs the calls \<open>pre\<close>;
  a fresh one is restored from it; then the same \<open>calls\<close> are made on the original
  and on the restored strategy, one after the other in the order given by
  \<open>restored_first\<close>. The result is what the original and what the restored strategy
  returned or raised.
\<close>

definition restore_and_replay ::
  "bool \<Rightarrow> bool \<Rightarrow> config \<Rightarrow> call list \<Rightarrow> call list
     \<Rightarrow> (py_error + signal) list \<times> (py_error + signal) list" where
  "restore_and_replay through_storage restored_first cfg pre calls =
     (let (a0, st1) = init_obj cfg empty_store;
          (outs_pre, a, st2) = run_calls_obj st1 a0 pre;
          (b, st3) = restore through_storage cfg a st2
      in if restored_first then
           (let (outs_b, b', st4) = run_calls_obj st3 b calls;
                (outs_a, a', st5) = run_calls_obj st4 a calls
            in (outs_a, outs_b))
         else
           (let (outs_a, a', st4) = run_calls_obj st3 a calls;
                (outs_b, b', st5) = run_calls_obj st4 b calls
            in (outs_a, outs_b)))"

section \<open>The backtest driver\<close>

text \<open>A row of the downloaded data frame: its index and its \<^verbatim>\<open>Close\<close> column.\<close>

record bar =
  bar_timestamp :: timestamp
  bar_close :: real

text \<open>An entry of \<^verbatim>\<open>trades\<close>; a buy carries \<^verbatim>\<open>cost\<close>, a sell \<^verbatim>\<open>revenue\<close>.\<close>

record trade =
  tr_timestamp :: timestamp
  tr_side :: string
  tr_price :: real
  tr_size :: real
  tr_cost :: "real option"
  tr_revenue :: "real option"

text \<open>
  \<^verbatim>\<open>BacktestExchange.fetch_market_snapshot\<close>: the window of at most \<open>limit\<close>
  closes ending at \<open>current_idx\<close>; \<^verbatim>\<open>prices[-1]\<close> raises on an empty window.
\<close>

definition fetch_market_snapshot ::
  "bar list \<Rightarrow> nat \<Rightarrow> string \<Rightarrow> int \<Rightarrow> py_error + market_snapshot" where
  "fetch_market_snapshot data current_idx symbol limit =
     (let end_idx = int current_idx + 1;
          start_idx = max 0 (end_idx - limit);
          slice_df = drop (nat start_idx) (take (nat end_idx) data)
      in if slice_df = [] then Inl IndexError
         else Inr \<lparr> ms_symbol = symbol, prices = map bar_close slice_df,
                    current_price = bar_close (last slice_df),
                    ms_timestamp = bar_timestamp (last slice_df) \<rparr>)"

text \<open>The locals of \<^verbatim>\<open>run_backtest\<close> that the loop updates.\<close>

record bt_state =
  bt_portfolio :: portfolio
  bt_strategy :: strategy
  bt_trades :: "trade list"
  bt_equity_curve :: "real list"

text \<open>Lines 143-145: the equity sample of the step.\<close>

definition track_equity :: "real \<Rightarrow> bt_state \<Rightarrow> bt_state" where
  "track_equity price st =
     st\<lparr>bt_equity_curve := bt_equity_curve st @ [portfolio_value (bt_portfolio st) price]\<rparr>"

text \<open>Lines 115-145: the driver applies a signal to the portfolio, then samples equity.\<close>

definition execute_signal :: "signal \<Rightarrow> real \<Rightarrow> timestamp \<Rightarrow> bt_state \<Rightarrow> bt_state" where
  "execute_signal sig price ts st =
     (let pf = bt_portfolio st;
          st' =
            (if action sig = ''buy'' then
               (let cost = size sig * price in
                if cash pf \<ge> cost then
                  st\<lparr>bt_portfolio := pf\<lparr>cash := cash pf - cost, quantity := quantity pf + size sig\<rparr>,
                      bt_trades := bt_trades st @
                        [\<lparr> tr_timestamp = ts, tr_side = ''buy'', tr_price = price,
                            tr_size = size sig, tr_cost = Some cost, tr_revenue = None \<rparr>],
                      bt_strategy := on_trade (bt_strategy st) sig price (size sig) ts\<rparr>
                else st)
             else if action sig = ''sell'' then
               (if quantity pf \<ge> size sig then
                  (let revenue = size sig * price in
                   st\<lparr>bt_portfolio := pf\<lparr>cash := cash pf + revenue, quantity := quantity pf - size sig\<rparr>,
                       bt_trades := bt_trades st @
                         [\<lparr> tr_timestamp = ts, tr_side = ''sell'', tr_price = price,
                             tr_size = size sig, tr_cost = None, tr_revenue = Some revenue \<rparr>],
                       bt_strategy := on_trade (bt_strategy st) sig price (size sig) ts\<rparr>)
                else st)
             else st)
      in track_equity price st')"

text \<open>
  Lines 102-145: one iteration of the loop at index \<open>i\<close>. An exception raised by the
  snapshot or by the strategy leaves \<^verbatim>\<open>run_backtest\<close>.
\<close>

definition backtest_step :: "bar list \<Rightarrow> string \<Rightarrow> nat \<Rightarrow> bt_state \<Rightarrow> py_error + bt_state" where
  "backtest_step df symbol i st =
     (if i \<ge> length df then Inl IndexError
      else
        (let price = bar_close (df ! i);
             ts = bar_timestamp (df ! i)
         in case fetch_market_snapshot df i symbol 100 of
              Inl e \<Rightarrow> Inl e
            | Inr market \<Rightarrow>
                (case generate_signal (bt_strategy st) market (bt_portfolio st) of
                   (Inl e, self') \<Rightarrow> Inl e
                 | (Inr sig, self') \<Rightarrow>
                     Inr (execute_signal sig price ts (st\<lparr>bt_strategy := self'\<rparr>)))))"

fun backtest_loop :: "bar list \<Rightarrow> string \<Rightarrow> nat list \<Rightarrow> bt_state \<Rightarrow> py_error + bt_state" where
  "backtest_loop df symbol [] st = Inr st"
| "backtest_loop df symbol (i # is) st =
     (case backtest_step df symbol i st of
        Inl e \<Rightarrow> Inl e
      | Inr st' \<Rightarrow> backtest_loop df symbol is st')"

text \<open>Lines 159-166: the drawdown loop over the equity curve.\<close>

fun drawdown_loop :: "real \<Rightarrow> real \<Rightarrow> real list \<Rightarrow> py_error + real" where
  "drawdown_loop peak max_dd [] = Inr max_dd"
| "drawdown_loop peak max_dd (eq # rest) =
     (let peak = (if eq > peak then eq else peak) in
      case py_div (peak - eq) peak of
        Inl e \<Rightarrow> Inl e
      | Inr dd \<Rightarrow> drawdown_loop peak (if dd > max_dd then dd else max_dd) rest)"

definition max_drawdown :: "real list \<Rightarrow> py_error + real" where
  "max_drawdown equity_curve = drawdown_loop 10000 0 equity_curve"

record report =
  final_equity :: real
  pnl :: real
  pnl_pct :: real
  total_trades :: nat
  rep_max_drawdown :: real

text \<open>The configuration \<^verbatim>\<open>run_backtest\<close> builds at lines 79-88.\<close>

definition backtest_config :: config where
  "backtest_config =
     \<lparr> cfg_ma_period = Some 24, cfg_grid_step_pct = Some (1 / 100),
       cfg_max_grid_levels = Some 2, cfg_position_size_pct = Some (275 / 1000),
       cfg_stop_loss_pct = Some (15 / 100),
       cfg_take_profit_above_sma_pct = Some (50 / 100),
       cfg_trailing_stop_activation_pct = Some (25 / 1000),
       cfg_trailing_stop_callback_pct = Some (35 / 1000) \<rparr>"

definition initial_state :: "config \<Rightarrow> string \<Rightarrow> real \<Rightarrow> bt_state" where
  "initial_state cfg symbol initial_cash =
     \<lparr> bt_portfolio = \<lparr> pf_symbol = symbol, cash = initial_cash, quantity = 0 \<rparr>,
       bt_strategy = init cfg, bt_trades = [], bt_equity_curve = [] \<rparr>"

text \<open>
  \<^verbatim>\<open>run_backtest\<close> on downloaded data \<open>df\<close>: \<open>None\<close> when the frame is empty
  (the function prints and returns), otherwise the figures of the report.
  \<^verbatim>\<open>equity_curve[-1]\<close> raises when the loop has not run.
\<close>

definition run_backtest :: "bar list \<Rightarrow> py_error + report option" where
  "run_backtest df =
     (if df = [] then Inr None
      else
        (case backtest_loop df ''BTC-USD'' [50 ..< length df]
                (initial_state backtest_config ''BTC-USD'' 10000) of
           Inl e \<Rightarrow> Inl e
         | Inr st \<Rightarrow>
             (if bt_equity_curve st = [] then Inl IndexError
              else
                (let final = last (bt_equity_curve st);
                     p = final - 10000;
                     p_pct = (p / 10000) * 100
                 in case max_drawdown (bt_equity_curve st) of
                      Inl e \<Rightarrow> Inl e
                    | Inr dd \<Rightarrow>
                        Inr (Some \<lparr> final_equity = final, pnl = p, pnl_pct = p_pct,
                                    total_trades = length (bt_trades st),
                                    rep_max_drawdown = dd \<rparr>)))))"

section \<open>Predicates and reference definitions used by the properties\<close>

text \<open>
  The drawdown as the specification words it: the largest, over the samples, of the
  fall from the running peak relative to that peak, the running peak being the largest
  of the starting cash and the samples so far.
\<close>

definition running_peak_spec :: "real \<Rightarrow> real list \<Rightarrow> nat \<Rightarrow> real" where
  "running_peak_spec start curve t = Max (set (start # take (Suc t) curve))"

definition drawdown_spec :: "real \<Rightarrow> real list \<Rightarrow> nat \<Rightarrow> real" where
  "drawdown_spec start curve t =
     (running_peak_spec start curve t - curve ! t) / running_peak_spec start curve t"

definition max_drawdown_spec :: "real \<Rightarrow> real list \<Rightarrow> real" where
  "max_drawdown_spec start curve =
     Max (set (map (drawdown_spec start curve) [0 ..< length curve]))"

text \<open>A call made while the portfolio holds a position.\<close>

fun position_held :: "call \<Rightarrow> bool" where
  "position_held (Generate_signal market pf) = (quantity pf > 0)"
| "position_held (On_trade sig price sz ts) = True"

text \<open>The driver's quantity agrees with the strategy's ledger.\<close>

definition ledger_consistent :: "bt_state \<Rightarrow> bool" where
  "ledger_consistent st \<longleftrightarrow>
     quantity (bt_portfolio st) = total_size (active_positions (bt_strategy st))"

section \<open>Concrete inputs\<close>

text \<open>
  A window of 24 closes with mean 100 whose last close is 97, and a portfolio of 10000
  in cash holding nothing.
\<close>

definition scenario_market :: market_snapshot where
  "scenario_market =
     \<lparr> ms_symbol = ''BTC-USD'',
       prices = [100, 100, 100, 100, 100, 100, 100, 100, 100, 100, 100, 100, 100, 100,
                 100, 100, 100, 100, 100, 100, 100, 100, 103, 97],
       current_price = 97, ms_timestamp = 0 \<rparr>"

definition scenario_portfolio :: portfolio where
  "scenario_portfolio = \<lparr> pf_symbol = ''BTC-USD'', cash = 10000, quantity = 0 \<rparr>"

text \<open>
  A strategy with a moving average of two prices, a window that rallies to 400 and a
  portfolio holding 50 units; three bars that dip to 97.
\<close>

definition short_config :: config where
  "short_config = empty_config\<lparr>cfg_ma_period := Some 2\<rparr>"

definition rally_market :: market_snapshot where
  "rally_market =
     \<lparr> ms_symbol = ''BTC-USD'', prices = [100, 100, 400], current_price = 400,
       ms_timestamp = 0 \<rparr>"

definition held_portfolio :: portfolio where
  "held_portfolio = \<lparr> pf_symbol = ''BTC-USD'', cash = 5000, quantity = 50 \<rparr>"

definition dip_bars :: "bar list" where
  "dip_bars =
     [\<lparr> bar_timestamp = 0, bar_close = 100 \<rparr>, \<lparr> bar_timestamp = 1, bar_close = 103 \<rparr>,
      \<lparr> bar_timestamp = 2, bar_close = 97 \<rparr>]"

text \<open>The scenario call, the fill of the buy it returns, and the scenario call again.\<close>

definition fill_calls :: "call list" where
  "fill_calls =
     [Generate_signal scenario_market scenario_portfolio,
      On_trade \<lparr> action = ''buy'', size = 2750 / 97, reason = Some ''Grid Buy Level 2'' \<rparr>
        97 (2750 / 97) 0,
      Generate_signal scenario_market scenario_portfolio]"

text \<open>The driver's state after the loop has run over indices 1 and 2 of the three bars.\<close>

definition dip_run :: bt_state where
  "dip_run =
     \<lparr> bt_portfolio = \<lparr> pf_symbol = ''BTC-USD'', cash = 7250, quantity = 2750 / 97 \<rparr>,
       bt_strategy = (init short_config)
         \<lparr>active_positions := [\<lparr> pos_price = 97, pos_size = 2750 / 97 \<rparr>]\<rparr>,
       bt_trades = [\<lparr> tr_timestamp = 2, tr_side = ''buy'', tr_price = 97,
                      tr_size = 2750 / 97, tr_cost = Some 2750, tr_revenue = None \<rparr>],
       bt_equity_curve = [10000, 10000] \<rparr>"

section \<open>Properties of the strategy engine\<close>

lemmas engine_defs = generate_signal_def anchor_def py_div_def update_trailing_high_def
  trailing_stop_hit_def grid_entry_def py_int_def hold_signal_def total_size_def
  statistics_mean_def

lemma float_overflow_bound: "2 ^ 1022 < float_overflow"
proof -
  have "(2::real) ^ 970 \<le> 2 ^ 1022" by (rule power_increasing) simp_all
  moreover have "(2::real) ^ 1024 = 4 * 2 ^ 1022"
    by (simp add: power_add [of 2 2 1022, simplified])
  moreover have "(0::real) < 2 ^ 1022" by simp
  ultimately show ?thesis unfolding float_overflow_def by linarith
qed

lemma no_overflow_small:
  assumes "x \<le> 1000"
  shows "(float_overflow \<le> x) = False"
proof -
  have "(2::real) ^ 10 \<le> 2 ^ 1022" by (rule power_increasing) simp_all
  then have "(1000::real) \<le> 2 ^ 1022" by simp
  then have "\<not> float_overflow \<le> x"
    using assms float_overflow_bound by linarith
  then show ?thesis by simp
qed

lemma scenario_mean:
  "statistics_mean (py_slice_from (- 24) (prices scenario_market)) = Inr 100"
  by (simp add: scenario_market_def statistics_mean_def py_slice_from_def)


text \<open>
  C1 (grid-buy scenario). With the default period, grid step, level cap and position
  size, an empty ledger, a window of at least 24 prices whose last 24 have mean 100, a
  current price of 97, cash 10000 and no holding, \<^verbatim>\<open>generate_signal\<close> returns a buy
  of size \<open>(10000 * 0.275) / 97\<close> whose reason names grid level 2; the level index
  before clamping is \<open>int(0.03 / 0.01) = 3\<close>.
\<close>

theorem grid_buy_scenario:
  assumes "ma_period self = 24" "grid_step_pct self = 1 / 100" "max_grid_levels self = 2"
      "position_size_pct self = 275 / 1000" "active_positions self = []"
      "24 \<le> length (prices market)"
      "statistics_mean (py_slice_from (- 24) (prices market)) = Inr 100"
      "current_price market = 97"
      "cash pf = 10000" "quantity pf = 0"
  shows "fst (generate_signal self market pf) =
           Inr \<lparr> action = ''buy'', size = (10000 * (275 / 1000)) / 97,
                 reason = Some ''Grid Buy Level 2'' \<rparr>
         \<and> py_int (\<bar>(97 - 100) / 100\<bar> / grid_step_pct self) = Inr 3"
  using assms(6)
  by (simp add: assms(1-5) assms(7-10) generate_signal_def anchor_def py_div_def
      update_trailing_high_def trailing_stop_hit_def grid_entry_def py_int_def str_int_def
      digit_char_def no_overflow_small)

theorem grid_buy_scenario_witness:
  "fst (generate_signal (init empty_config) scenario_market scenario_portfolio) =
     Inr \<lparr> action = ''buy'', size = (10000 * (275 / 1000)) / 97,
           reason = Some ''Grid Buy Level 2'' \<rparr>
   \<and> 24 \<le> length (prices scenario_market)
   \<and> statistics_mean (py_slice_from (- 24) (prices scenario_market)) = Inr 100"
  using grid_buy_scenario [of "init empty_config" scenario_market scenario_portfolio]
    scenario_mean
  by (simp add: init_def empty_config_def dict_get_def scenario_market_def
      scenario_portfolio_def)




text \<open>
  C4 (take-profit exit). On a window of at least \<open>ma_period\<close> prices whose anchor
  \<open>sma\<close> and deviation \<open>(price - sma) / sma\<close> are computed, with a positive quantity
  and a deviation above \<open>take_profit_above_sma_pct\<close>, the call returns a sell of the
  whole quantity; only the reason tells whether the trailing stop or the target fired.
\<close>

theorem take_profit_exit:
  assumes "ma_period self \<le> int (length (prices market))"
      and "anchor self market = Inr (sma, deviation)"
      and "quantity pf > 0"
      and "deviation > take_profit_above_sma_pct self"
  shows "fst (generate_signal self market pf) =
           Inr \<lparr> action = ''sell'', size = quantity pf,
                 reason = Some (if trailing_stop_hit
                                     (update_trailing_high self (current_price market) pf)
                                     (current_price market) pf
                                then ''Trailing Stop Hit''
                                else ''Mean Reversion: Target Hit'') \<rparr>
         \<and> deviation = (current_price market - sma) / sma"
  using assms
  by (auto simp: generate_signal_def Let_def update_trailing_high_def anchor_def py_div_def
      split: sum.splits if_splits)

lemma rally_anchor: "anchor (init short_config) rally_market = Inr (250, 3 / 5)"
  by (simp add: anchor_def init_def short_config_def empty_config_def dict_get_def
      rally_market_def statistics_mean_def py_slice_from_def py_div_def)

theorem take_profit_exit_witness:
  "fst (generate_signal (init short_config) rally_market held_portfolio) =
     Inr \<lparr> action = ''sell'', size = 50, reason = Some ''Mean Reversion: Target Hit'' \<rparr>"
  using take_profit_exit [OF _ rally_anchor, of held_portfolio]
  by (simp add: init_def short_config_def empty_config_def dict_get_def rally_market_def
      held_portfolio_def trailing_stop_hit_def update_trailing_high_def total_size_def)

subsection \<open>Faults\<close>







text \<open>
  None of the divisions is guarded, a period below 1 can leave the mean without data,
  and a grid step in the subnormal range makes the level quotient infinite: each of the
  following calls raises.
\<close>

lemma zero_anchor_raises:
  "fst (generate_signal (init short_config)
          \<lparr> ms_symbol = ''BTC-USD'', prices = [0, 0], current_price = 0, ms_timestamp = 0 \<rparr>
          scenario_portfolio) = Inl ZeroDivisionError"
  by (simp add: engine_defs init_def short_config_def empty_config_def dict_get_def
      py_slice_from_def)

lemma zero_grid_step_raises:
  "fst (generate_signal (init (empty_config\<lparr>cfg_grid_step_pct := Some 0\<rparr>))
          scenario_market scenario_portfolio) = Inl ZeroDivisionError"
  by (simp add: engine_defs init_def empty_config_def dict_get_def scenario_market_def
      scenario_portfolio_def py_slice_from_def)

lemma zero_entry_price_raises:
  "fst (generate_signal
          ((init empty_config)\<lparr>active_positions := [\<lparr> pos_price = 0, pos_size = 1 \<rparr>]\<rparr>)
          scenario_market scenario_portfolio) = Inl ZeroDivisionError"
  by (simp add: engine_defs init_def empty_config_def dict_get_def scenario_market_def
      scenario_portfolio_def py_slice_from_def no_overflow_small)

lemma zero_price_raises:
  "fst (generate_signal (init short_config)
          \<lparr> ms_symbol = ''BTC-USD'', prices = [200, 0], current_price = 0, ms_timestamp = 0 \<rparr>
          scenario_portfolio) = Inl ZeroDivisionError"
  by (simp add: engine_defs init_def short_config_def empty_config_def dict_get_def
      scenario_portfolio_def py_slice_from_def no_overflow_small)

lemma negative_period_raises:
  "fst (generate_signal (init (empty_config\<lparr>cfg_ma_period := Some (- 1)\<rparr>))
          \<lparr> ms_symbol = ''BTC-USD'', prices = [100], current_price = 100, ms_timestamp = 0 \<rparr>
          scenario_portfolio) = Inl StatisticsError"
  by (simp add: engine_defs init_def empty_config_def dict_get_def py_slice_from_def)

lemma tiny_grid_step_overflow: "py_int (3 * 2 ^ 1074 / 100) = Inl OverflowError"
proof -
  have "(2::real) ^ 1074 = 2 ^ 1024 * 2 ^ 50" by (simp add: power_add [symmetric])
  moreover have "(100::real) \<le> 3 * 2 ^ 50" by simp
  moreover have "(0::real) < 2 ^ 1024" "(0::real) \<le> 2 ^ 970" by simp_all
  ultimately have "(2::real) ^ 1024 \<le> 3 * 2 ^ 1074 / 100"
    by (simp add: field_simps)
  then have "float_overflow \<le> \<bar>3 * 2 ^ 1074 / 100\<bar>"
    by (simp add: float_overflow_def)
  then show ?thesis by (simp only: py_int_def if_True)
qed

lemma tiny_grid_step_raises:
  "fst (generate_signal (init (empty_config\<lparr>cfg_grid_step_pct := Some (1 / 2 ^ 1074)\<rparr>))
          scenario_market scenario_portfolio) = Inl OverflowError"
proof -
  let ?self = "init (empty_config\<lparr>cfg_grid_step_pct := Some (1 / 2 ^ 1074)\<rparr>)"
  have a: "anchor ?self scenario_market = Inr (100, - (3 / 100))"
    by (simp add: anchor_def statistics_mean_def py_div_def py_slice_from_def init_def
        empty_config_def dict_get_def scenario_market_def)
  have g: "grid_entry (update_trailing_high ?self 97 scenario_portfolio) 97 (- (3 / 100))
             scenario_portfolio = Inl OverflowError"
    unfolding grid_entry_def
    by (simp add: py_div_def update_trailing_high_def init_def empty_config_def dict_get_def
        scenario_portfolio_def tiny_grid_step_overflow del: power_numeral)
  have l: "\<not> int (length (prices scenario_market)) < ma_period ?self"
    by (simp add: init_def empty_config_def dict_get_def scenario_market_def)
  have c: "current_price scenario_market = 97" by (simp add: scenario_market_def)
  have t: "\<not> trailing_stop_hit (update_trailing_high ?self 97 scenario_portfolio) 97
               scenario_portfolio"
    by (simp add: trailing_stop_hit_def scenario_portfolio_def)
  have q: "\<not> quantity scenario_portfolio > 0" by (simp add: scenario_portfolio_def)
  show ?thesis
    unfolding generate_signal_def
    by (simp only: l a c g t q if_False Let_def sum.case prod.case fst_conv simp_thms)
       simp
qed




subsection \<open>The trailing high\<close>

lemma generate_signal_trailing_high_mono:
  "quantity pf > 0 \<Longrightarrow>
     trailing_high self \<le> trailing_high (snd (generate_signal self market pf))"
  by (simp add: generate_signal_def update_trailing_high_def Let_def
      split: sum.splits prod.splits)

lemma on_trade_trailing_high:
  "trailing_high (on_trade self sig price sz ts) = trailing_high self"
  by (simp add: on_trade_def)

lemma run_calls_trailing_high_mono:
  "\<forall>c \<in> set calls. position_held c \<Longrightarrow>
     trailing_high self \<le> trailing_high (snd (run_calls self calls))"
proof (induction calls arbitrary: self)
  case Nil
  then show ?case by simp
next
  case (Cons c calls)
  show ?case
  proof (cases c)
    case (Generate_signal market pf)
    with Cons.prems have q: "quantity pf > 0" by simp
    have "trailing_high self \<le> trailing_high (snd (generate_signal self market pf))"
      by (rule generate_signal_trailing_high_mono [OF q])
    also have "\<dots> \<le> trailing_high
                       (snd (run_calls (snd (generate_signal self market pf)) calls))"
      using Cons.IH Cons.prems by simp
    finally show ?thesis
      using Generate_signal by (simp add: split_beta)
  next
    case (On_trade sig price sz ts)
    have "trailing_high self = trailing_high (on_trade self sig price sz ts)"
      by (simp add: on_trade_trailing_high)
    also have "\<dots> \<le> trailing_high (snd (run_calls (on_trade self sig price sz ts) calls))"
      using Cons.IH Cons.prems by simp
    finally show ?thesis
      using On_trade by simp
  qed
qed

text \<open>
  C3 (monotonic trailing high). A \<^verbatim>\<open>generate_signal\<close> call made with a positive
  quantity never lowers \<^verbatim>\<open>trailing_high\<close>; a call made without one, on a window
  of at least \<open>ma_period\<close> prices whose anchor is computed, leaves it at exactly 0; a
  call on a shorter window returns the plain hold and leaves the object untouched;
  \<^verbatim>\<open>on_trade\<close> does not touch it; hence over any sequence of calls made while a
  position is held it is non-decreasing.
\<close>

theorem trailing_high_monotonic:
  "(quantity pf > 0 \<longrightarrow>
      trailing_high self \<le> trailing_high (snd (generate_signal self market pf)))
   \<and> (\<not> quantity pf > 0 \<and> ma_period self \<le> int (length (prices market))
        \<and> anchor self market = Inr a \<longrightarrow>
      trailing_high (snd (generate_signal self market pf)) = 0)
   \<and> (int (length (prices market)) < ma_period self \<longrightarrow>
      generate_signal self market pf = (Inr hold_signal, self))
   \<and> trailing_high (on_trade self sig price sz ts) = trailing_high self
   \<and> ((\<forall>c \<in> set calls. position_held c) \<longrightarrow>
      trailing_high self \<le> trailing_high (snd (run_calls self calls)))"
proof (intro conjI impI)
  show "trailing_high self \<le> trailing_high (snd (generate_signal self market pf))"
    if "quantity pf > 0"
    using that by (rule generate_signal_trailing_high_mono)
  show "trailing_high (snd (generate_signal self market pf)) = 0"
    if "\<not> quantity pf > 0 \<and> ma_period self \<le> int (length (prices market))
        \<and> anchor self market = Inr a"
    using that
    by (cases a) (simp add: generate_signal_def update_trailing_high_def Let_def)
  show "generate_signal self market pf = (Inr hold_signal, self)"
    if "int (length (prices market)) < ma_period self"
    using that by (simp add: generate_signal_def)
  show "trailing_high (on_trade self sig price sz ts) = trailing_high self"
    by (rule on_trade_trailing_high)
  show "trailing_high self \<le> trailing_high (snd (run_calls self calls))"
    if "\<forall>c \<in> set calls. position_held c"
    using that by (rule run_calls_trailing_high_mono)
qed

lemma rally_held_call:
  "snd (generate_signal (init short_config) rally_market held_portfolio)
     = (init short_config)\<lparr>trailing_high := 400\<rparr>"
  by (simp add: engine_defs py_slice_from_def
      init_def short_config_def empty_config_def dict_get_def rally_market_def
      held_portfolio_def)

theorem trailing_high_monotonic_witness:
  "trailing_high (snd (generate_signal (init short_config) rally_market held_portfolio)) = 400
   \<and> trailing_high (init short_config) = 0
   \<and> trailing_high (snd (generate_signal ((init short_config)\<lparr>trailing_high := 400\<rparr>)
                            rally_market scenario_portfolio)) = 0
   \<and> generate_signal (init empty_config) rally_market held_portfolio
       = (Inr hold_signal, init empty_config)
   \<and> trailing_high (init short_config)
       \<le> trailing_high (snd (run_calls (init short_config)
             [Generate_signal rally_market held_portfolio,
              On_trade hold_signal 400 0 0,
              Generate_signal scenario_market held_portfolio]))"
proof -
  have a: "anchor ((init short_config)\<lparr>trailing_high := 400\<rparr>) rally_market = Inr (250, 3 / 5)"
    using rally_anchor by (simp add: anchor_def)
  have h: "quantity held_portfolio > 0" by (simp add: held_portfolio_def)
  have f: "\<not> quantity scenario_portfolio > 0" by (simp add: scenario_portfolio_def)
  have l: "ma_period ((init short_config)\<lparr>trailing_high := 400\<rparr>)
             \<le> int (length (prices rally_market))"
    by (simp add: init_def short_config_def empty_config_def dict_get_def rally_market_def)
  have s: "int (length (prices rally_market)) < ma_period (init empty_config)"
    by (simp add: init_def empty_config_def dict_get_def rally_market_def)
  have c: "\<forall>c \<in> set [Generate_signal rally_market held_portfolio,
              On_trade hold_signal 400 0 0,
              Generate_signal scenario_market held_portfolio]. position_held c"
    using h by simp
  show ?thesis
    using trailing_high_monotonic [of held_portfolio "init short_config" rally_market
        "(250, 3 / 5)" hold_signal 400 0 0
        "[Generate_signal rally_market held_portfolio, On_trade hold_signal 400 0 0,
          Generate_signal scenario_market held_portfolio]"]
      trailing_high_monotonic [of scenario_portfolio
        "(init short_config)\<lparr>trailing_high := 400\<rparr>" rally_market "(250, 3 / 5)"]
      trailing_high_monotonic [of held_portfolio "init empty_config" rally_market]
      a h f l s c rally_held_call
    by (simp add: init_def)
qed

subsection \<open>Exported state\<close>

lemma generate_signal_state:
  "(snd (generate_signal self market pf))\<lparr>trailing_high := h\<rparr> = self\<lparr>trailing_high := h\<rparr>"
  by (simp add: generate_signal_def update_trailing_high_def Let_def
      split: sum.splits prod.splits)

lemma on_trade_state:
  "(on_trade self sig price sz ts)\<lparr>active_positions := ps\<rparr> = self\<lparr>active_positions := ps\<rparr>"
  by (simp add: on_trade_def)

lemma run_calls_state:
  "(snd (run_calls self calls))\<lparr>active_positions := ps, trailing_high := h\<rparr>
     = self\<lparr>active_positions := ps, trailing_high := h\<rparr>"
proof (induction calls arbitrary: self)
  case Nil
  then show ?case by simp
next
  case (Cons c calls)
  show ?case
  proof (cases c)
    case (Generate_signal market pf)
    let ?s = "snd (generate_signal self market pf)"
    have "(snd (run_calls self (c # calls)))\<lparr>active_positions := ps, trailing_high := h\<rparr>
            = ?s\<lparr>active_positions := ps, trailing_high := h\<rparr>"
      using Cons.IH [of ?s] Generate_signal by (simp add: split_beta)
    also have "\<dots> = (?s\<lparr>trailing_high := h\<rparr>)\<lparr>active_positions := ps\<rparr>"
      by simp
    also have "\<dots> = (self\<lparr>trailing_high := h\<rparr>)\<lparr>active_positions := ps\<rparr>"
      by (simp only: generate_signal_state)
    finally show ?thesis by simp
  next
    case (On_trade sig price sz ts)
    let ?s = "on_trade self sig price sz ts"
    have "(snd (run_calls self (c # calls)))\<lparr>active_positions := ps, trailing_high := h\<rparr>
            = ?s\<lparr>active_positions := ps, trailing_high := h\<rparr>"
      using Cons.IH [of ?s] On_trade by simp
    also have "\<dots> = (self\<lparr>active_positions := ps\<rparr>)\<lparr>trailing_high := h\<rparr>"
      by (simp only: on_trade_state)
    finally show ?thesis by simp
  qed
qed

lemma attributes_trailing_high:
  "attributes st (self\<lparr>o_trailing_high := h\<rparr>) = (attributes st self)\<lparr>trailing_high := h\<rparr>"
  by (simp add: attributes_def)

lemma generate_signal_obj_fst:
  "fst (generate_signal_obj st self market pf)
     = fst (generate_signal (attributes st self) market pf)"
  by (simp add: generate_signal_obj_def split_beta)

lemma generate_signal_obj_attributes:
  "attributes st (snd (generate_signal_obj st self market pf))
     = snd (generate_signal (attributes st self) market pf)"
proof -
  let ?g = "snd (generate_signal (attributes st self) market pf)"
  have "attributes st (snd (generate_signal_obj st self market pf))
          = (attributes st self)\<lparr>trailing_high := trailing_high ?g\<rparr>"
    by (simp add: generate_signal_obj_def split_beta attributes_trailing_high)
  also have "\<dots> = ?g\<lparr>trailing_high := trailing_high ?g\<rparr>"
    by (simp only: generate_signal_state)
  also have "\<dots> = ?g" by simp
  finally show ?thesis .
qed

lemma generate_signal_obj_ref:
  "o_active_positions (snd (generate_signal_obj st self market pf)) = o_active_positions self"
  by (simp add: generate_signal_obj_def split_beta)

lemma on_trade_obj_attributes:
  "attributes (snd (on_trade_obj st self sig price sz ts))
              (fst (on_trade_obj st self sig price sz ts))
     = on_trade (attributes st self) sig price sz ts"
  by (simp add: on_trade_obj_def on_trade_def attributes_def new_list_def)

lemma on_trade_obj_frame:
  assumes "r \<noteq> o_active_positions self" and "r < next_ref st"
  shows "list_at (snd (on_trade_obj st self sig price sz ts)) r = list_at st r"
    and "r \<noteq> o_active_positions (fst (on_trade_obj st self sig price sz ts))"
    and "r < next_ref (snd (on_trade_obj st self sig price sz ts))"
  using assms by (simp_all add: on_trade_obj_def new_list_def)

lemma run_calls_obj_sim:
  "fst (run_calls_obj st self calls) = fst (run_calls (attributes st self) calls)
   \<and> attributes (snd (snd (run_calls_obj st self calls))) (fst (snd (run_calls_obj st self calls)))
       = snd (run_calls (attributes st self) calls)"
proof (induction calls arbitrary: st self)
  case Nil
  then show ?case by simp
next
  case (Cons c calls)
  show ?case
  proof (cases c)
    case (Generate_signal market pf)
    let ?self' = "snd (generate_signal_obj st self market pf)"
    show ?thesis
      using Cons.IH [of st ?self'] Generate_signal
      by (simp add: split_beta generate_signal_obj_fst generate_signal_obj_attributes)
  next
    case (On_trade sig price sz ts)
    let ?ot = "on_trade_obj st self sig price sz ts"
    show ?thesis
      using Cons.IH [of "snd ?ot" "fst ?ot"] On_trade
      by (simp add: split_beta on_trade_obj_attributes)
  qed
qed

lemma run_calls_obj_frame:
  "r \<noteq> o_active_positions self \<Longrightarrow> r < next_ref st \<Longrightarrow>
     list_at (snd (snd (run_calls_obj st self calls))) r = list_at st r"
proof (induction calls arbitrary: st self)
  case Nil
  then show ?case by simp
next
  case (Cons c calls)
  show ?case
  proof (cases c)
    case (Generate_signal market pf)
    let ?self' = "snd (generate_signal_obj st self market pf)"
    have "r \<noteq> o_active_positions ?self'"
      using Cons.prems(1) by (simp add: generate_signal_obj_ref)
    then show ?thesis
      using Cons.IH [of ?self' st] Cons.prems(2) Generate_signal
      by (simp add: split_beta)
  next
    case (On_trade sig price sz ts)
    let ?ot = "on_trade_obj st self sig price sz ts"
    have "list_at (snd (snd (run_calls_obj (snd ?ot) (fst ?ot) calls))) r = list_at (snd ?ot) r"
      using Cons.prems by (intro Cons.IH on_trade_obj_frame)
    also have "\<dots> = list_at st r"
      using Cons.prems by (rule on_trade_obj_frame)
    finally show ?thesis
      using On_trade by (simp add: split_beta)
  qed
qed

lemma run_calls_obj_allocated:
  "o_active_positions self < next_ref st \<Longrightarrow>
     o_active_positions (fst (snd (run_calls_obj st self calls)))
       < next_ref (snd (snd (run_calls_obj st self calls)))"
proof (induction calls arbitrary: st self)
  case Nil
  then show ?case by simp
next
  case (Cons c calls)
  show ?case
  proof (cases c)
    case (Generate_signal market pf)
    then show ?thesis
      using Cons.IH [of "snd (generate_signal_obj st self market pf)" st] Cons.prems
      by (simp add: split_beta generate_signal_obj_ref)
  next
    case (On_trade sig price sz ts)
    let ?ot = "on_trade_obj st self sig price sz ts"
    have "o_active_positions (fst ?ot) < next_ref (snd ?ot)"
      using Cons.prems by (simp add: on_trade_obj_def new_list_def)
    then show ?thesis
      using Cons.IH [of "fst ?ot" "snd ?ot"] On_trade by (simp add: split_beta)
  qed
qed

lemma replay_agrees:
  assumes "attributes st b = attributes st a"
      and "o_active_positions b \<noteq> o_active_positions a"
      and "o_active_positions b < next_ref st"
  shows "fst (run_calls_obj (snd (snd (run_calls_obj st a calls))) b calls)
           = fst (run_calls_obj st a calls)"
proof -
  let ?st' = "snd (snd (run_calls_obj st a calls))"
  have "list_at ?st' (o_active_positions b) = list_at st (o_active_positions b)"
    using assms(2,3) by (rule run_calls_obj_frame)
  then have "attributes ?st' b = attributes st b"
    by (simp add: attributes_def)
  then have "fst (run_calls_obj ?st' b calls) = fst (run_calls (attributes st a) calls)"
    using assms(1) by (simp add: run_calls_obj_sim)
  then show ?thesis by (simp add: run_calls_obj_sim)
qed

lemma init_obj_attributes:
  "attributes (snd (init_obj cfg st)) (fst (init_obj cfg st)) = init cfg"
  by (simp add: init_obj_def attributes_def new_list_def init_def Let_def)

lemma init_obj_allocated:
  "o_active_positions (fst (init_obj cfg st)) < next_ref (snd (init_obj cfg st))"
  by (simp add: init_obj_def new_list_def Let_def)

lemma restore_attributes:
  assumes "o_active_positions a < next_ref st"
  shows "attributes (snd (restore True cfg a st)) (fst (restore True cfg a st))
           = (init cfg)\<lparr>active_positions := list_at st (o_active_positions a),
                         trailing_high := o_trailing_high a\<rparr>"
  using assms
  by (simp add: restore_def init_obj_def stored_copy_def get_state_def set_state_def
      new_list_def attributes_def init_def dict_get_def Let_def split_beta)

lemma restore_frame:
  assumes "o_active_positions a < next_ref st"
  shows "list_at (snd (restore True cfg a st)) (o_active_positions a)
           = list_at st (o_active_positions a)"
    and "o_active_positions (fst (restore True cfg a st)) \<noteq> o_active_positions a"
    and "o_active_positions (fst (restore True cfg a st)) < next_ref (snd (restore True cfg a st))"
  using assms
  by (simp_all add: restore_def init_obj_def stored_copy_def get_state_def set_state_def
      new_list_def Let_def split_beta)

lemma restore_allocated:
  assumes "o_active_positions a < next_ref st"
  shows "o_active_positions a < next_ref (snd (restore True cfg a st))"
  using assms
  by (simp add: restore_def init_obj_def stored_copy_def get_state_def set_state_def
      new_list_def Let_def split_beta)

lemma restore_same_attributes:
  assumes "o_active_positions a < next_ref st"
      and "attributes st a = snd (run_calls (init cfg) pre)"
  shows "attributes (snd (restore True cfg a st)) (fst (restore True cfg a st))
           = attributes (snd (restore True cfg a st)) a"
proof -
  let ?s = "snd (run_calls (init cfg) pre)"
  let ?st = "snd (restore True cfg a st)"
  have l: "list_at st (o_active_positions a) = active_positions ?s"
          "o_trailing_high a = trailing_high ?s"
    using assms(2) [symmetric] by (simp_all add: attributes_def)
  have "attributes ?st (fst (restore True cfg a st))
          = (init cfg)\<lparr>active_positions := active_positions ?s,
                        trailing_high := trailing_high ?s\<rparr>"
    using restore_attributes [OF assms(1)] l by simp
  also have "\<dots> = ?s\<lparr>active_positions := active_positions ?s, trailing_high := trailing_high ?s\<rparr>"
    by (simp only: run_calls_state)
  also have "\<dots> = ?s" by simp
  also have "\<dots> = attributes st a" using assms(2) by simp
  also have "\<dots> = attributes ?st a"
    using restore_frame(1) [OF assms(1)] by (simp add: attributes_def)
  finally show ?thesis .
qed

text \<open>
  C8 (state round trip) does not hold of the code as stated. A fresh strategy is given
  the exported dict of a new original as it is; the scenario call, the fill of the buy
  it returns and the scenario call again are then made on the original and after that
  on the restored strategy. Both hold the same list object, the original's fill is in
  it when the restored strategy is first asked, and the outputs differ: buy then hold
  from the original, hold twice from the restored one.
\<close>

theorem shared_ledger_counterexample:
  "restore_and_replay False False empty_config [] fill_calls =
     ([Inr \<lparr> action = ''buy'', size = 2750 / 97, reason = Some ''Grid Buy Level 2'' \<rparr>,
       Inr \<lparr> action = ''hold'', size = 0,
             reason = Some ''Position already exists at this level'' \<rparr>],
      [Inr \<lparr> action = ''hold'', size = 0,
             reason = Some ''Position already exists at this level'' \<rparr>,
       Inr \<lparr> action = ''hold'', size = 0,
             reason = Some ''Position already exists at this level'' \<rparr>])"
  by (simp add: restore_and_replay_def restore_def init_obj_def get_state_def set_state_def
      new_list_def empty_store_def generate_signal_obj_def on_trade_obj_def attributes_def
      fill_calls_def engine_defs init_def empty_config_def dict_get_def scenario_market_def
      scenario_portfolio_def py_slice_from_def str_int_def digit_char_def no_overflow_small
      Let_def split_beta)

text \<open>
  C8, amended. Take any strategy reached from a fresh one by a sequence of calls, and a
  fresh strategy of the same configuration that is given by \<^verbatim>\<open>set_state\<close> a stored
  copy of its exported state, so that the two do not hold the same list object. Every
  later sequence of \<^verbatim>\<open>generate_signal\<close> and \<^verbatim>\<open>on_trade\<close> calls, made on the two
  one after the other in either order, returns and raises the same on both, namely what
  a strategy that was never exported returns. The exported dict has both keys,
  \<^verbatim>\<open>active_positions\<close> and \<^verbatim>\<open>trailing_high\<close>.
\<close>

theorem state_round_trip:
  "snd (restore_and_replay True restored_first cfg pre calls)
     = fst (restore_and_replay True restored_first cfg pre calls)
   \<and> fst (restore_and_replay True restored_first cfg pre calls)
       = fst (run_calls (snd (run_calls (init cfg) pre)) calls)
   \<and> sd_active_positions (get_state self) = Some (o_active_positions self)
   \<and> sd_trailing_high (get_state self) = Some (o_trailing_high self)"
proof -
  let ?new = "fst (init_obj cfg empty_store)"
  let ?sta = "snd (init_obj cfg empty_store)"
  let ?a = "fst (snd (run_calls_obj ?sta ?new pre))"
  let ?stb = "snd (snd (run_calls_obj ?sta ?new pre))"
  let ?b = "fst (restore True cfg ?a ?stb)"
  let ?stc = "snd (restore True cfg ?a ?stb)"
  let ?ref = "fst (run_calls (snd (run_calls (init cfg) pre)) calls)"
  have alloc: "o_active_positions ?a < next_ref ?stb"
    using init_obj_allocated by (rule run_calls_obj_allocated)
  have attr: "attributes ?stb ?a = snd (run_calls (init cfg) pre)"
    using run_calls_obj_sim [of ?sta ?new pre] by (simp add: init_obj_attributes)
  have same: "attributes ?stc ?b = attributes ?stc ?a"
    using alloc attr by (rule restore_same_attributes)
  have "attributes ?stc ?a = attributes ?stb ?a"
    using restore_frame(1) [OF alloc] by (simp add: attributes_def)
  then have orig: "fst (run_calls_obj ?stc ?a calls) = ?ref"
    using attr by (simp add: run_calls_obj_sim)
  then have rest: "fst (run_calls_obj ?stc ?b calls) = ?ref"
    using same by (simp add: run_calls_obj_sim)
  have after_a: "fst (run_calls_obj (snd (snd (run_calls_obj ?stc ?a calls))) ?b calls)
                   = fst (run_calls_obj ?stc ?a calls)"
    using same restore_frame(2,3) [OF alloc] by (rule replay_agrees)
  have after_b: "fst (run_calls_obj (snd (snd (run_calls_obj ?stc ?b calls))) ?a calls)
                   = fst (run_calls_obj ?stc ?b calls)"
    using same [symmetric] restore_frame(2) [OF alloc, symmetric] restore_allocated [OF alloc]
    by (rule replay_agrees)
  show ?thesis
  proof (cases restored_first)
    case True
    then show ?thesis
      using after_b rest by (simp add: restore_and_replay_def split_beta get_state_def)
  next
    case False
    then show ?thesis
      using after_a orig by (simp add: restore_and_replay_def split_beta get_state_def)
  qed
qed

subsection \<open>The stop-loss parameter\<close>

lemma anchor_stop_loss: "anchor (self\<lparr>stop_loss_pct := x\<rparr>) market = anchor self market"
  by (simp add: anchor_def)

lemma update_trailing_high_stop_loss:
  "update_trailing_high (self\<lparr>stop_loss_pct := x\<rparr>) price pf =
     (update_trailing_high self price pf)\<lparr>stop_loss_pct := x\<rparr>"
  by (simp add: update_trailing_high_def)

lemma trailing_stop_hit_stop_loss:
  "trailing_stop_hit (self\<lparr>stop_loss_pct := x\<rparr>) price pf = trailing_stop_hit self price pf"
  by (simp add: trailing_stop_hit_def)

lemma grid_entry_stop_loss:
  "grid_entry (self\<lparr>stop_loss_pct := x\<rparr>) price deviation pf = grid_entry self price deviation pf"
  by (simp add: grid_entry_def Let_def cong: if_cong sum.case_cong bool.case_cong)

lemma generate_signal_stop_loss:
  "generate_signal (self\<lparr>stop_loss_pct := x\<rparr>) market pf =
     (fst (generate_signal self market pf),
      (snd (generate_signal self market pf))\<lparr>stop_loss_pct := x\<rparr>)"
proof (cases "anchor self market")
  case (Inl e)
  then show ?thesis
    by (simp add: generate_signal_def anchor_stop_loss)
next
  case (Inr a)
  obtain sma deviation where a: "a = (sma, deviation)" by (cases a)
  have t: "take_profit_above_sma_pct
             ((update_trailing_high self (current_price market) pf)\<lparr>stop_loss_pct := x\<rparr>)
           = take_profit_above_sma_pct (update_trailing_high self (current_price market) pf)"
    by simp
  show ?thesis
    unfolding generate_signal_def anchor_stop_loss Inr a Let_def
      update_trailing_high_stop_loss trailing_stop_hit_stop_loss grid_entry_stop_loss t
    by simp
qed

lemma on_trade_stop_loss:
  "on_trade (self\<lparr>stop_loss_pct := x\<rparr>) sig price sz ts =
     (on_trade self sig price sz ts)\<lparr>stop_loss_pct := x\<rparr>"
  by (simp add: on_trade_def)

lemma run_calls_stop_loss:
  "run_calls (self\<lparr>stop_loss_pct := x\<rparr>) calls =
     (fst (run_calls self calls), (snd (run_calls self calls))\<lparr>stop_loss_pct := x\<rparr>)"
proof (induction calls arbitrary: self)
  case Nil
  then show ?case by simp
next
  case (Cons c calls)
  show ?case
  proof (cases c)
    case (Generate_signal market pf)
    then show ?thesis
      by (simp add: generate_signal_stop_loss Cons.IH split_beta)
  next
    case (On_trade sig price sz ts)
    then show ?thesis
      by (simp add: on_trade_stop_loss Cons.IH)
  qed
qed

lemma init_stop_loss:
  "init (cfg\<lparr>cfg_stop_loss_pct := v\<rparr>) = (init cfg)\<lparr>stop_loss_pct := dict_get v (15 / 100)\<rparr>"
  by (simp add: init_def)

text \<open>
  C10 (stop-loss noninterference). Two strategies built from configurations that differ
  only in \<^verbatim>\<open>stop_loss_pct\<close> return and raise the same on every sequence of calls,
  and after it they differ in nothing but the stored \<^verbatim>\<open>stop_loss_pct\<close> itself.
\<close>

theorem stop_loss_noninterference:
  "fst (run_calls (init (cfg\<lparr>cfg_stop_loss_pct := v\<rparr>)) calls) = fst (run_calls (init cfg) calls)
   \<and> snd (run_calls (init (cfg\<lparr>cfg_stop_loss_pct := v\<rparr>)) calls)
       = (snd (run_calls (init cfg) calls))\<lparr>stop_loss_pct := dict_get v (15 / 100)\<rparr>"
proof -
  let ?x = "dict_get v (15 / 100)"
  have "run_calls (init (cfg\<lparr>cfg_stop_loss_pct := v\<rparr>)) calls
          = run_calls ((init cfg)\<lparr>stop_loss_pct := ?x\<rparr>) calls"
    by (simp only: init_stop_loss)
  also have "\<dots> = (fst (run_calls (init cfg) calls),
                     (snd (run_calls (init cfg) calls))\<lparr>stop_loss_pct := ?x\<rparr>)"
    by (rule run_calls_stop_loss)
  finally show ?thesis by simp
qed

section \<open>Properties of the backtest driver\<close>

lemma dip_run_result:
  "backtest_loop dip_bars ''BTC-USD'' [1, 2] (initial_state short_config ''BTC-USD'' 10000)
     = Inr dip_run"
  by (simp add: backtest_step_def fetch_market_snapshot_def execute_signal_def
      track_equity_def portfolio_value_def on_trade_def initial_state_def engine_defs
      py_slice_from_def init_def short_config_def empty_config_def dict_get_def dip_bars_def
      dip_run_def str_int_def digit_char_def Let_def no_overflow_small)

lemma grid_entry_action:
  "grid_entry self price deviation pf = Inr sig \<Longrightarrow> action sig = ''buy'' \<or> action sig = ''hold''"
  by (auto simp: grid_entry_def py_div_def Let_def hold_signal_def
      split: sum.splits if_splits bool.splits)

lemma generate_signal_sell_size:
  "fst (generate_signal self market pf) = Inr sig \<Longrightarrow> action sig = ''sell'' \<Longrightarrow>
     size sig = quantity pf"
  by (auto simp: generate_signal_def Let_def hold_signal_def dest: grid_entry_action
      split: sum.splits if_splits prod.splits)

lemma generate_signal_active_positions:
  "active_positions (snd (generate_signal self market pf)) = active_positions self"
  by (simp add: generate_signal_def update_trailing_high_def Let_def
      split: sum.splits prod.splits)

lemma execute_signal_consistent:
  assumes "ledger_consistent st"
      and "action sig = ''sell'' \<Longrightarrow> size sig = quantity (bt_portfolio st)"
  shows "ledger_consistent (execute_signal sig price ts st)"
  using assms
  by (auto simp: ledger_consistent_def execute_signal_def track_equity_def on_trade_def
      total_size_def Let_def)

lemma backtest_step_consistent:
  assumes "ledger_consistent st" and "backtest_step df symbol i st = Inr st'"
  shows "ledger_consistent st'"
proof -
  from assms(2) obtain market sig self' where
    g: "generate_signal (bt_strategy st) market (bt_portfolio st) = (Inr sig, self')"
    and st': "st' = execute_signal sig (bar_close (df ! i)) (bar_timestamp (df ! i))
                      (st\<lparr>bt_strategy := self'\<rparr>)"
    by (auto simp: backtest_step_def Let_def split: if_splits sum.splits prod.splits)
  have "active_positions self' = active_positions (bt_strategy st)"
    using generate_signal_active_positions [of "bt_strategy st" market "bt_portfolio st"] g
    by simp
  then have c: "ledger_consistent (st\<lparr>bt_strategy := self'\<rparr>)"
    using assms(1) by (simp add: ledger_consistent_def)
  have s: "action sig = ''sell'' \<Longrightarrow> size sig = quantity (bt_portfolio (st\<lparr>bt_strategy := self'\<rparr>))"
    using generate_signal_sell_size [of "bt_strategy st" market "bt_portfolio st" sig] g
    by simp
  show ?thesis
    unfolding st' by (rule execute_signal_consistent [OF c s])
qed

lemma backtest_loop_consistent:
  "ledger_consistent st \<Longrightarrow> backtest_loop df symbol idxs st = Inr st' \<Longrightarrow>
     ledger_consistent st'"
proof (induction idxs arbitrary: st)
  case Nil
  then show ?case by simp
next
  case (Cons i idxs)
  from Cons.prems(2) obtain st1 where
    s1: "backtest_step df symbol i st = Inr st1" and
    s2: "backtest_loop df symbol idxs st1 = Inr st'"
    by (auto split: sum.splits)
  from Cons.prems(1) s1 have "ledger_consistent st1"
    by (rule backtest_step_consistent)
  then show ?case using s2 by (rule Cons.IH)
qed

text \<open>
  C5 (ledger consistency). Start the driver loop with quantity 0 and an empty ledger.
  Whatever the data, the indices visited, the configuration and the cash, when the loop
  completes the portfolio's quantity equals the sum of the sizes in the strategy's
  \<^verbatim>\<open>active_positions\<close>. The loop takes its signals from \<^verbatim>\<open>generate_signal\<close>,
  whose sells are always for the whole quantity.
\<close>

theorem ledger_consistency:
  assumes "quantity (bt_portfolio st) = 0" and "active_positions (bt_strategy st) = []"
      and "backtest_loop df symbol idxs st = Inr st'"
  shows "quantity (bt_portfolio st') = total_size (active_positions (bt_strategy st'))"
proof -
  have "ledger_consistent st"
    using assms(1,2) by (simp add: ledger_consistent_def total_size_def)
  then have "ledger_consistent st'"
    using assms(3) by (rule backtest_loop_consistent)
  then show ?thesis by (simp add: ledger_consistent_def)
qed

theorem ledger_consistency_witness:
  "quantity (bt_portfolio dip_run) = total_size (active_positions (bt_strategy dip_run))
   \<and> quantity (bt_portfolio dip_run) = 2750 / 97"
  using ledger_consistency [OF _ _ dip_run_result]
  by (simp add: initial_state_def init_def dip_run_def)

text \<open>
  C6 (insufficient funds or inventory). Given a buy whose cost \<open>size * price\<close> exceeds
  cash, or a sell whose size exceeds the quantity held, the driver's step changes
  nothing but the equity curve: portfolio, trades and strategy object are as before
  (\<^verbatim>\<open>on_trade\<close> is not reached), and the sample \<open>cash + quantity * price\<close> is
  appended. The step has no raising operation.
\<close>

theorem insufficient_funds_noop:
  assumes "(action sig = ''buy'' \<and> size sig * price > cash (bt_portfolio st))
         \<or> (action sig = ''sell'' \<and> size sig > quantity (bt_portfolio st))"
  shows "execute_signal sig price ts st =
           st\<lparr>bt_equity_curve :=
                 bt_equity_curve st
                   @ [cash (bt_portfolio st) + quantity (bt_portfolio st) * price]\<rparr>"
  using assms
  by (auto simp: execute_signal_def track_equity_def portfolio_value_def Let_def)

theorem insufficient_funds_noop_witness:
  "execute_signal \<lparr> action = ''buy'', size = 200, reason = None \<rparr> 97 2 dip_run
     = dip_run\<lparr>bt_equity_curve := [10000, 10000, 10000]\<rparr>
   \<and> execute_signal \<lparr> action = ''sell'', size = 30, reason = None \<rparr> 97 2 dip_run
     = dip_run\<lparr>bt_equity_curve := [10000, 10000, 10000]\<rparr>"
  using insufficient_funds_noop [where sig = "\<lparr> action = ''buy'', size = 200, reason = None \<rparr>"
        and price = 97 and st = dip_run and ts = 2]
    insufficient_funds_noop [where sig = "\<lparr> action = ''sell'', size = 30, reason = None \<rparr>"
        and price = 97 and st = dip_run and ts = 2]
  by (simp add: dip_run_def)

subsection \<open>Drawdown\<close>

lemma Max_insert_insert:
  fixes a b :: real
  assumes "finite A"
  shows "Max (insert a (insert b A)) = Max (insert (max a b) A)"
proof (cases "A = {}")
  case True
  then show ?thesis by (simp add: max.commute)
next
  case False
  then show ?thesis using assms by (simp add: max.assoc)
qed

lemma running_peak_Cons_0: "running_peak_spec start (eq # rest) 0 = max start eq"
  by (simp add: running_peak_spec_def)

lemma running_peak_Cons_Suc:
  "running_peak_spec start (eq # rest) (Suc t) = running_peak_spec (max start eq) rest t"
  by (simp add: running_peak_spec_def Max_insert_insert del: Max_insert)

lemma drawdown_spec_Cons_0:
  "drawdown_spec start (eq # rest) 0 = (max start eq - eq) / max start eq"
  by (simp add: drawdown_spec_def running_peak_Cons_0)

lemma drawdown_spec_Cons_Suc:
  "drawdown_spec start (eq # rest) (Suc t) = drawdown_spec (max start eq) rest t"
  by (simp add: drawdown_spec_def running_peak_Cons_Suc)

lemma drawdown_image_Cons:
  "drawdown_spec start (eq # rest) ` {..< Suc n} =
     insert ((max start eq - eq) / max start eq)
       (drawdown_spec (max start eq) rest ` {..< n})"
  by (simp add: lessThan_Suc_eq_insert_0 image_image drawdown_spec_Cons_0
      drawdown_spec_Cons_Suc)

lemma drawdown_loop_spec:
  "0 < peak \<Longrightarrow>
     drawdown_loop peak max_dd curve =
       Inr (Max (insert max_dd (drawdown_spec peak curve ` {..< length curve})))"
proof (induction curve arbitrary: peak max_dd)
  case Nil
  then show ?case by simp
next
  case (Cons eq rest)
  let ?peak = "max peak eq"
  let ?dd = "(?peak - eq) / ?peak"
  have pos: "0 < ?peak" using Cons.prems by simp
  have p: "(if eq > peak then eq else peak) = ?peak" by (simp add: max_def)
  have d: "py_div (?peak - eq) ?peak = Inr ?dd" using pos by (simp add: py_div_def)
  have m: "(if ?dd > max_dd then ?dd else max_dd) = max max_dd ?dd" by (simp add: max_def)
  have "drawdown_loop peak max_dd (eq # rest) = drawdown_loop ?peak (max max_dd ?dd) rest"
    by (simp only: drawdown_loop.simps Let_def p d m sum.case)
  also have "\<dots> = Inr (Max (insert (max max_dd ?dd)
                      (drawdown_spec ?peak rest ` {..< length rest})))"
    by (rule Cons.IH [OF pos])
  also have "Max (insert (max max_dd ?dd) (drawdown_spec ?peak rest ` {..< length rest}))
           = Max (insert max_dd (insert ?dd (drawdown_spec ?peak rest ` {..< length rest})))"
    by (simp add: Max_insert_insert del: Max_insert)
  finally show ?case
    by (simp only: length_Cons drawdown_image_Cons)
qed

lemma running_peak_ge:
  assumes "t < length curve"
  shows "curve ! t \<le> running_peak_spec start curve t" "start \<le> running_peak_spec start curve t"
proof -
  have "curve ! t \<in> set (take (Suc t) curve)"
    using assms by (metis in_set_conv_nth length_take lessI min_less_iff_conj nth_take)
  then show "curve ! t \<le> running_peak_spec start curve t"
    by (simp add: running_peak_spec_def)
  show "start \<le> running_peak_spec start curve t"
    by (simp add: running_peak_spec_def)
qed

lemma drawdown_spec_nonneg:
  assumes "t < length curve" "0 < start"
  shows "0 \<le> drawdown_spec start curve t"
  using running_peak_ge [OF assms(1), of start] assms(2)
  by (simp add: drawdown_spec_def)

lemma max_drawdown_refines:
  assumes "curve \<noteq> []"
  shows "max_drawdown curve = Inr (max_drawdown_spec 10000 curve)"
proof -
  let ?S = "drawdown_spec 10000 curve ` {..< length curve}"
  have fin: "finite ?S" by simp
  have ne: "?S \<noteq> {}" using assms by (simp add: lessThan_empty_iff)
  have "\<forall>x \<in> ?S. 0 \<le> x" by (auto intro: drawdown_spec_nonneg)
  then have "0 \<le> Max ?S" using fin ne by (meson Max_in)
  then have "Max (insert 0 ?S) = Max ?S" using fin ne by simp
  moreover have "max_drawdown_spec 10000 curve = Max ?S"
    by (simp add: max_drawdown_spec_def atLeast0LessThan)
  ultimately show ?thesis
    by (simp add: max_drawdown_def drawdown_loop_spec)
qed

text \<open>
  C9 (drawdown correctness). On a non-empty equity curve the driver's drawdown loop
  returns the maximum over \<open>t\<close> of \<open>(peak t - equity t) / peak t\<close>, the running peak
  starting at the initial cash 10000; on the curve 10000, 11000, 9000, 9500 it is
  \<open>(11000 - 9000) / 11000\<close>.
\<close>

theorem drawdown_correct:
  "(curve \<noteq> [] \<longrightarrow> max_drawdown curve = Inr (max_drawdown_spec 10000 curve))
   \<and> max_drawdown [10000, 11000, 9000, 9500] = Inr ((11000 - 9000) / 11000)"
proof (intro conjI impI)
  show "max_drawdown curve = Inr (max_drawdown_spec 10000 curve)" if "curve \<noteq> []"
    using that by (rule max_drawdown_refines)
  show "max_drawdown [10000, 11000, 9000, 9500] = Inr ((11000 - 9000) / 11000)"
    by (simp add: max_drawdown_def py_div_def)
qed

theorem drawdown_correct_witness:
  "max_drawdown_spec 10000 [10000, 11000, 9000, 9500] = (11000 - 9000) / 11000"
proof -
  have "(Inr (max_drawdown_spec 10000 [10000, 11000, 9000, 9500]) :: py_error + real)
          = Inr ((11000 - 9000) / 11000)"
    using drawdown_correct [of "[10000, 11000, 9000, 9500]"] by force
  then show ?thesis by (simp only: sum.inject)
qed

end
